theory Spec2Isabelle
  imports Main "HOL-Library.Word" "HOL-Library.Char_ord" "HOL-Library.List_Lexorder"
begin

section \<open>The VLC bridge: data model\<close>

text \<open>
  A shallow embedding of \<^verbatim>\<open>vlc_bridge.cpp\<close>. Pointers are addresses (\<open>0\<close> is
  \<^verbatim>\<open>nullptr\<close>) into explicit stores; handles of the decoder engine and of the host
  runtime are opaque numbers, nullable ones are options. Every call that leaves the
  bridge (libvlc, JNI, \<^verbatim>\<open>new\<close>/\<^verbatim>\<open>delete\<close>) is appended to a trace, and
  whatever such a call answers is an input of the model. Logging and the marshalling of
  strings are left out. Each entry point runs as one step, so the registry mutex has no
  state of its own; taking and releasing it are kept as the accesses to the registry
  object that they are.
\<close>

type_synonym addr = nat
type_synonym jobject = nat
type_synonym jmethodID = nat
type_synonym JNIEnv = nat
type_synonym libvlc_instance = nat
type_synonym libvlc_media = nat
type_synonym libvlc_media_player = nat
type_synonym jint = "32 word"
type_synonym unsigned = "32 word"

text \<open>\<^verbatim>\<open>struct PlayerContext\<close> (lines 17-24).\<close>

record PlayerContext =
  frameHub :: "jobject option"
  onFrameMethod :: "jmethodID option"
  mp :: "libvlc_media_player option"
  buffer :: "8 word list"
  actualWidth :: jint
  actualHeight :: jint

text \<open>
  \<^verbatim>\<open>struct GlobalContext\<close> (lines 27-32). The \<^verbatim>\<open>std::map\<close> is an association
  list kept in key order, which is the order the map is iterated in.
\<close>

record GlobalContext =
  vlc :: "libvlc_instance option"
  players :: "(string \<times> addr) list"

datatype event =
    ENewCtx addr
  | EDeleteCtx addr
  | ENewGlobalRef jobject "jobject option"
  | EDeleteGlobalRef jobject
  | EGetMethodID jobject "jmethodID option"
  | EMediaNewLocation libvlc_instance string "libvlc_media option"
  | EMediaAddOption libvlc_media string
  | EPlayerNewFromMedia libvlc_media "libvlc_media_player option"
  | EMediaRelease libvlc_media
  | ESetCallbacks "libvlc_media_player option" addr
  | ESetFormatCallbacks "libvlc_media_player option"
  | EPlayerPlay "libvlc_media_player option" int
  | EPlayerStop libvlc_media_player
  | EPlayerRelease libvlc_media_player
  | EVlcRelease libvlc_instance
  | EDeleteGlobalCtx addr GlobalContext
  | EGetEnv int
  | EAttachCurrentThread int
  | EDetachCurrentThread
  | ENewDirectByteBuffer "8 word list" bool
  | ECallVoidMethod jobject jmethodID "8 word list" jint jint bool
  | EDeleteLocalRef

text \<open>
  The state the entry points work on: the live \<^verbatim>\<open>GlobalContext\<close> objects by
  address (a handle is such an address), the live \<^verbatim>\<open>PlayerContext\<close> objects by
  address, and the trace of external calls so far.
\<close>

record world =
  globals :: "addr \<rightharpoonup> GlobalContext"
  contexts :: "addr \<rightharpoonup> PlayerContext"
  trace :: "event list"

text \<open>
  Reading or writing through a pointer to an object that is not live is undefined
  behaviour. A run that does so ends in a fault, together with the state it had reached.
\<close>

datatype fault = DanglingHandle addr | DanglingContext addr

type_synonym 'a outcome = "(fault \<times> world) + 'a"

definition emit :: "event list \<Rightarrow> world \<Rightarrow> world" where
  "emit evs w = w\<lparr>trace := trace w @ evs\<rparr>"

section \<open>Format negotiation (lines 57-76)\<close>

text \<open>
  \<^verbatim>\<open>std::vector::resize\<close>: shrinking keeps a prefix and cannot fail; growing pads
  with zero bytes, or throws. Whether the vector can grow to \<open>n\<close> bytes, within the
  capacity it has or through the allocator, is the input \<open>can_alloc n\<close>.
\<close>

definition vector_resize :: "(nat \<Rightarrow> bool) \<Rightarrow> 8 word list \<Rightarrow> nat \<Rightarrow> 8 word list option" where
  "vector_resize can_alloc v n =
     (if n \<le> length v then Some (take n v)
      else if can_alloc n then Some (v @ replicate (n - length v) 0)
      else None)"

text \<open>What the callback writes through its out-parameters.\<close>

record setup_out =
  chroma :: string
  out_width :: unsigned
  out_height :: unsigned
  pitches :: unsigned
  lines :: unsigned

text \<open>
  \<^verbatim>\<open>format_setup_cb\<close>. \<open>width\<close> and \<open>height\<close> are what the engine proposes.
  \<^verbatim>\<open>int\<close> and \<^verbatim>\<open>unsigned\<close> are both 32-bit words, read signed for the test
  \<^verbatim>\<open>> 0\<close>; the two products are \<^verbatim>\<open>unsigned\<close> products, so they wrap, and only
  then is the result widened to \<^verbatim>\<open>size_t\<close>. The result is the return code, the
  context as left behind and the out-parameters.
\<close>

definition format_setup_cb ::
  "(nat \<Rightarrow> bool) \<Rightarrow> PlayerContext \<Rightarrow> unsigned \<Rightarrow> unsigned \<Rightarrow> unsigned \<times> PlayerContext \<times> setup_out" where
  "format_setup_cb can_alloc ctx width height =
     (let forced = (0 < sint (actualWidth ctx) \<and> 0 < sint (actualHeight ctx));
          width1 = (if forced then actualWidth ctx else width);
          height1 = (if forced then actualHeight ctx else height);
          ctx1 = (if forced then ctx else ctx\<lparr>actualWidth := width, actualHeight := height\<rparr>);
          pitches1 = width1 * 2;
          lines1 = height1;
          size = unat (pitches1 * lines1);
          out = \<lparr>chroma = ''RV16'', out_width = width1, out_height = height1,
                 pitches = pitches1, lines = lines1\<rparr>
      in case vector_resize can_alloc (buffer ctx1) size of
           None \<Rightarrow> (0, ctx1, out)
         | Some b \<Rightarrow> (1, ctx1\<lparr>buffer := b\<rparr>, out))"

section \<open>Frame delivery (lines 41-55 and 86-103)\<close>

definition JNI_OK :: int where
  "JNI_OK = 0"

definition JNI_EDETACHED :: int where
  "JNI_EDETACHED = - 2"

text \<open>
  What the host runtime answers during one delivery: the status of \<^verbatim>\<open>GetEnv\<close> and
  of \<^verbatim>\<open>AttachCurrentThread\<close>, the environment pointer they hand out, whether
  \<^verbatim>\<open>NewDirectByteBuffer\<close> yields an object, and whether the sink's handler leaves an
  exception pending.
\<close>

record jvm =
  get_env_status :: int
  attach_status :: int
  env_ptr :: JNIEnv
  buffer_ok :: bool
  sink_throws :: bool

text \<open>
  \<^verbatim>\<open>getJNIEnv\<close>: the result is the environment (\<open>None\<close> is \<^verbatim>\<open>nullptr\<close>), the
  value of \<^verbatim>\<open>*needsDetach\<close> afterwards, and the calls made.
\<close>

definition getJNIEnv :: "jvm \<Rightarrow> bool \<Rightarrow> JNIEnv option \<times> bool \<times> event list" where
  "getJNIEnv vm needsDetach =
     (if get_env_status vm = JNI_OK then
        (Some (env_ptr vm), False, [EGetEnv (get_env_status vm)])
      else if get_env_status vm = JNI_EDETACHED then
        (if attach_status vm = JNI_OK then
           (Some (env_ptr vm), True,
            [EGetEnv (get_env_status vm), EAttachCurrentThread (attach_status vm)])
         else
           (None, needsDetach,
            [EGetEnv (get_env_status vm), EAttachCurrentThread (attach_status vm)]))
      else (None, needsDetach, [EGetEnv (get_env_status vm)]))"

text \<open>
  \<^verbatim>\<open>display_cb\<close>: the argument is what \<^verbatim>\<open>opaque\<close> points to (\<open>None\<close> for a
  null pointer), the result the calls made. The direct byte buffer is a view of the
  session's buffer, so the events carry those bytes.
\<close>

definition display_cb :: "jvm \<Rightarrow> PlayerContext option \<Rightarrow> event list" where
  "display_cb vm opaque =
     (case opaque of
        None \<Rightarrow> []
      | Some ctx \<Rightarrow>
         (case frameHub ctx of
            None \<Rightarrow> []
          | Some hub \<Rightarrow>
             (case getJNIEnv vm False of
                (None, needsDetach, evs) \<Rightarrow> evs
              | (Some env, needsDetach, evs) \<Rightarrow>
                  evs
                  @ (case onFrameMethod ctx of
                       None \<Rightarrow> []
                     | Some m \<Rightarrow>
                         ENewDirectByteBuffer (buffer ctx) (buffer_ok vm)
                         # (if buffer_ok vm then
                              [ECallVoidMethod hub m (buffer ctx) (actualWidth ctx)
                                 (actualHeight ctx) (sink_throws vm),
                               EDeleteLocalRef]
                            else []))
                  @ (if needsDetach then [EDetachCurrentThread] else []))))"

section \<open>The registry (lines 105-289)\<close>

text \<open>
  The operations of \<^verbatim>\<open>std::map<std::string, PlayerContext *>\<close> that the bridge
  uses: \<^verbatim>\<open>find\<close>, \<^verbatim>\<open>erase\<close>, \<^verbatim>\<open>operator[]\<close> with assignment, and
  \<^verbatim>\<open>count\<close> for stating how many entries a key has.
\<close>

definition map_find :: "string \<Rightarrow> (string \<times> addr) list \<Rightarrow> addr option" where
  "map_find k ps = map_of ps k"

definition map_erase :: "string \<Rightarrow> (string \<times> addr) list \<Rightarrow> (string \<times> addr) list" where
  "map_erase k ps = filter (\<lambda>(k', v). k' \<noteq> k) ps"

fun map_insert :: "string \<Rightarrow> addr \<Rightarrow> (string \<times> addr) list \<Rightarrow> (string \<times> addr) list" where
  "map_insert k v [] = [(k, v)]"
| "map_insert k v ((k', v') # ps) =
     (if k = k' then (k, v) # ps
      else if k < k' then (k, v) # (k', v') # ps
      else (k', v') # map_insert k v ps)"

definition map_count :: "string \<Rightarrow> (string \<times> addr) list \<Rightarrow> nat" where
  "map_count k ps = length (filter (\<lambda>(k', v). k' = k) ps)"

text \<open>
  The \<^verbatim>\<open>std::lock_guard\<close> on \<^verbatim>\<open>globalCtx->mutex\<close> (lines 161, 200 and 274):
  its constructor locks the mutex inside the registry object, its destructor unlocks it
  when the scope is left, at every \<^verbatim>\<open>return\<close> after the guard was taken. Both reach
  into the registry object.
\<close>

definition mutex_lock :: "addr \<Rightarrow> world \<Rightarrow> world outcome" where
  "mutex_lock handle w =
     (case globals w handle of
        None \<Rightarrow> Inl (DanglingHandle handle, w)
      | Some g \<Rightarrow> Inr w)"

definition mutex_unlock :: "addr \<Rightarrow> world \<Rightarrow> world outcome" where
  "mutex_unlock handle w =
     (case globals w handle of
        None \<Rightarrow> Inl (DanglingHandle handle, w)
      | Some g \<Rightarrow> Inr w)"

text \<open>A \<^verbatim>\<open>return\<close> of \<open>r\<close> inside the scope of the guard.\<close>

definition unlock_return :: "addr \<Rightarrow> 'a \<Rightarrow> world \<Rightarrow> ('a \<times> world) outcome" where
  "unlock_return handle r w =
     (case mutex_unlock handle w of
        Inl f \<Rightarrow> Inl f
      | Inr w' \<Rightarrow> Inr (r, w'))"

text \<open>
  \<^verbatim>\<open>destroyPlayerContext\<close> (lines 106-118). The two fields it clears belong to the
  object it deletes right after, so clearing them leaves nothing behind.
\<close>

definition destroyPlayerContext :: "addr \<Rightarrow> world \<Rightarrow> world outcome" where
  "destroyPlayerContext p w =
     (if p = 0 then Inr w
      else case contexts w p of
        None \<Rightarrow> Inl (DanglingContext p, w)
      | Some ctx \<Rightarrow>
          (let w1 = (case mp ctx of
                       Some m \<Rightarrow> emit [EPlayerStop m, EPlayerRelease m] w
                     | None \<Rightarrow> w);
               w2 = (case frameHub ctx of
                       Some hub \<Rightarrow> emit [EDeleteGlobalRef hub] w1
                     | None \<Rightarrow> w1)
           in Inr (emit [EDeleteCtx p] (w2\<lparr>contexts := (contexts w2)(p := None)\<rparr>))))"

text \<open>The loop of \<^verbatim>\<open>nativeReleaseVLC\<close> over the map (lines 164-167).\<close>

fun destroy_all :: "(string \<times> addr) list \<Rightarrow> world \<Rightarrow> world outcome" where
  "destroy_all [] w = Inr w"
| "destroy_all ((url, playerCtx) # rest) w =
     (case destroyPlayerContext playerCtx w of
        Inl f \<Rightarrow> Inl f
      | Inr w' \<Rightarrow> destroy_all rest w')"

text \<open>
  \<^verbatim>\<open>nativeReleaseVLC\<close> (lines 156-178). The event of the final \<^verbatim>\<open>delete\<close>
  records the object as it is when deleted. The guard of line 161 is still in scope at
  that \<^verbatim>\<open>delete\<close>; it unlocks when the function ends.
\<close>

definition nativeReleaseVLC :: "addr \<Rightarrow> world \<Rightarrow> world outcome" where
  "nativeReleaseVLC handle w =
     (if handle = 0 then Inr w
      else case mutex_lock handle w of
        Inl f \<Rightarrow> Inl f
      | Inr w0 \<Rightarrow>
          (case globals w0 handle of
             None \<Rightarrow> Inl (DanglingHandle handle, w0)
           | Some g \<Rightarrow>
               (case destroy_all (players g) w0 of
                  Inl f \<Rightarrow> Inl f
                | Inr w1 \<Rightarrow>
                    (let g1 = g\<lparr>players := []\<rparr>;
                         w2 = (case vlc g1 of Some v \<Rightarrow> emit [EVlcRelease v] w1 | None \<Rightarrow> w1);
                         g2 = (case vlc g1 of Some v \<Rightarrow> g1\<lparr>vlc := None\<rparr> | None \<Rightarrow> g1);
                         w3 = emit [EDeleteGlobalCtx handle g2]
                                (w2\<lparr>globals := (globals w2)(handle := None)\<rparr>)
                     in mutex_unlock handle w3))))"

text \<open>
  What the engine and the host runtime answer during one \<^verbatim>\<open>nativeStart\<close>: the
  address \<^verbatim>\<open>new PlayerContext()\<close> returns, and the results of
  \<^verbatim>\<open>NewGlobalRef\<close>, \<^verbatim>\<open>GetMethodID\<close>, \<^verbatim>\<open>libvlc_media_new_location\<close>,
  \<^verbatim>\<open>libvlc_media_player_new_from_media\<close> and \<^verbatim>\<open>libvlc_media_player_play\<close>.
\<close>

record start_env =
  new_ctx :: addr
  global_ref :: "jobject option"
  method_id :: "jmethodID option"
  media :: "libvlc_media option"
  player :: "libvlc_media_player option"
  play_status :: int

text \<open>
  Lines 203-207 of \<^verbatim>\<open>nativeStart\<close>: an existing session for the URL goes first.
  The result carries the registry object as it is afterwards.
\<close>

definition destroy_existing ::
  "addr \<Rightarrow> GlobalContext \<Rightarrow> string \<Rightarrow> world \<Rightarrow> (GlobalContext \<times> world) outcome" where
  "destroy_existing handle g urlStr w =
     (case map_find urlStr (players g) of
        None \<Rightarrow> Inr (g, w)
      | Some old \<Rightarrow>
          (case destroyPlayerContext old w of
             Inl f \<Rightarrow> Inl f
           | Inr w1 \<Rightarrow>
               (let g1 = g\<lparr>players := map_erase urlStr (players g)\<rparr>
                in Inr (g1, w1\<lparr>globals := (globals w1)(handle \<mapsto> g1)\<rparr>))))"

text \<open>
  Lines 210-258 of \<^verbatim>\<open>nativeStart\<close>: the new session, on the registry object
  \<open>g\<close> as the first part left it. All three returns are inside the scope of the guard.
\<close>

definition start_new ::
  "start_env \<Rightarrow> addr \<Rightarrow> GlobalContext \<Rightarrow> libvlc_instance \<Rightarrow> string \<Rightarrow> jobject \<Rightarrow> jint \<Rightarrow> jint
     \<Rightarrow> string list option \<Rightarrow> world \<Rightarrow> (bool \<times> world) outcome" where
  "start_new env handle g v url hub width height args w =
     (let ctx = \<lparr>frameHub = global_ref env, onFrameMethod = method_id env, mp = None,
                 buffer = [], actualWidth = width, actualHeight = height\<rparr>;
          w1 = emit [ENewCtx (new_ctx env), ENewGlobalRef hub (global_ref env),
                     EGetMethodID hub (method_id env), EMediaNewLocation v url (media env)]
                 (w\<lparr>contexts := (contexts w)(new_ctx env \<mapsto> ctx)\<rparr>)
      in case media env of
           None \<Rightarrow>
             unlock_return handle False
               (emit [EDeleteCtx (new_ctx env)]
                  (w1\<lparr>contexts := (contexts w1)(new_ctx env := None)\<rparr>))
         | Some m \<Rightarrow>
             (let w2 = emit (map (EMediaAddOption m) (case args of None \<Rightarrow> [] | Some opts \<Rightarrow> opts)) w1;
                  w3 = emit [EPlayerNewFromMedia m (player env), EMediaRelease m,
                             ESetCallbacks (player env) (new_ctx env),
                             ESetFormatCallbacks (player env),
                             EPlayerPlay (player env) (play_status env)]
                         (w2\<lparr>contexts := (contexts w2)(new_ctx env \<mapsto> ctx\<lparr>mp := player env\<rparr>)\<rparr>)
              in if play_status env \<noteq> 0 then
                   (case destroyPlayerContext (new_ctx env) w3 of
                      Inl f \<Rightarrow> Inl f
                    | Inr w4 \<Rightarrow> unlock_return handle False w4)
                 else
                   unlock_return handle True
                     (w3\<lparr>globals := (globals w3)(handle \<mapsto>
                            g\<lparr>players := map_insert url (new_ctx env) (players g)\<rparr>)\<rparr>)))"

text \<open>\<^verbatim>\<open>nativeStart\<close> (lines 181-259).\<close>

definition nativeStart ::
  "start_env \<Rightarrow> addr \<Rightarrow> string \<Rightarrow> jobject \<Rightarrow> jint \<Rightarrow> jint \<Rightarrow> string list option \<Rightarrow> world
     \<Rightarrow> (bool \<times> world) outcome" where
  "nativeStart env handle url hub width height args w =
     (if handle = 0 then Inr (False, w)
      else case globals w handle of
        None \<Rightarrow> Inl (DanglingHandle handle, w)
      | Some g \<Rightarrow>
          (case vlc g of
             None \<Rightarrow> Inr (False, w)
           | Some v \<Rightarrow>
               (case mutex_lock handle w of
                  Inl f \<Rightarrow> Inl f
                | Inr w0 \<Rightarrow>
                    (case destroy_existing handle g url w0 of
                       Inl f \<Rightarrow> Inl f
                     | Inr (g1, w1) \<Rightarrow>
                         start_new env handle g1 v url hub width height args w1))))"

text \<open>\<^verbatim>\<open>nativeReleaseMedia\<close> (lines 262-289).\<close>

definition nativeReleaseMedia :: "addr \<Rightarrow> string \<Rightarrow> world \<Rightarrow> (bool \<times> world) outcome" where
  "nativeReleaseMedia handle url w =
     (if handle = 0 then Inr (False, w)
      else case globals w handle of
        None \<Rightarrow> Inl (DanglingHandle handle, w)
      | Some g \<Rightarrow>
          (case vlc g of
             None \<Rightarrow> Inr (False, w)
           | Some v \<Rightarrow>
               (case mutex_lock handle w of
                  Inl f \<Rightarrow> Inl f
                | Inr w0 \<Rightarrow>
                    (case map_find url (players g) of
                       Some p \<Rightarrow>
                         (case destroyPlayerContext p w0 of
                            Inl f \<Rightarrow> Inl f
                          | Inr w1 \<Rightarrow>
                              unlock_return handle True
                                (w1\<lparr>globals := (globals w1)(handle \<mapsto>
                                       g\<lparr>players := map_erase url (players g)\<rparr>)\<rparr>))
                     | None \<Rightarrow> unlock_return handle False w0))))"

text \<open>
  The calls \<^verbatim>\<open>destroyPlayerContext\<close> makes for a live context \<open>ctx\<close> at address
  \<open>p\<close>, and the events a call has added to the trace.
\<close>

definition destroy_events :: "addr \<Rightarrow> PlayerContext \<Rightarrow> event list" where
  "destroy_events p ctx =
     (case mp ctx of Some m \<Rightarrow> [EPlayerStop m, EPlayerRelease m] | None \<Rightarrow> [])
     @ (case frameHub ctx of Some hub \<Rightarrow> [EDeleteGlobalRef hub] | None \<Rightarrow> [])
     @ [EDeleteCtx p]"

definition emitted :: "world \<Rightarrow> world \<Rightarrow> event list" where
  "emitted w w' = drop (length (trace w)) (trace w')"

text \<open>\<open>precedes x y tr\<close>: \<open>y\<close> occurs in \<open>tr\<close>, and \<open>x\<close> occurs before its first occurrence.\<close>

fun precedes :: "event \<Rightarrow> event \<Rightarrow> event list \<Rightarrow> bool" where
  "precedes x y [] = False"
| "precedes x y (e # es) =
     (if e = y then False else if e = x then y \<in> set es else precedes x y es)"

section \<open>Vocabulary of the properties\<close>

text \<open>
  The calls of \<^verbatim>\<open>nativeStart\<close> from \<^verbatim>\<open>new PlayerContext()\<close> up to
  \<^verbatim>\<open>libvlc_media_player_play\<close>, when the media \<open>m\<close> was created.
\<close>

definition setup_events ::
  "start_env \<Rightarrow> libvlc_instance \<Rightarrow> string \<Rightarrow> jobject \<Rightarrow> string list option \<Rightarrow> libvlc_media
     \<Rightarrow> event list" where
  "setup_events env v url hub args m =
     [ENewCtx (new_ctx env), ENewGlobalRef hub (global_ref env),
      EGetMethodID hub (method_id env), EMediaNewLocation v url (Some m)]
     @ map (EMediaAddOption m) (case args of None \<Rightarrow> [] | Some opts \<Rightarrow> opts)
     @ [EPlayerNewFromMedia m (player env), EMediaRelease m,
        ESetCallbacks (player env) (new_ctx env), ESetFormatCallbacks (player env),
        EPlayerPlay (player env) (play_status env)]"

text \<open>
  The invariant of the registry that the release of all sessions relies on: no context
  is registered twice, and every registered pointer is a live, non-null context.
\<close>

definition sessions_live :: "(string \<times> addr) list \<Rightarrow> world \<Rightarrow> bool" where
  "sessions_live ps w =
     (distinct (map snd ps) \<and> list_all (\<lambda>(k, a). a \<noteq> 0 \<and> contexts w a \<noteq> None) ps)"

text \<open>The destruction of every registered session, in the order of the map.\<close>

definition destroy_all_events :: "(addr \<rightharpoonup> PlayerContext) \<Rightarrow> (string \<times> addr) list \<Rightarrow> event list" where
  "destroy_all_events cs ps =
     concat (map (\<lambda>(k, a). case cs a of Some c \<Rightarrow> destroy_events a c | None \<Rightarrow> []) ps)"

text \<open>A delivery to the host is a call of the sink's handler.\<close>

fun is_delivery :: "event \<Rightarrow> bool" where
  "is_delivery (ECallVoidMethod hub m bytes width height thrown) = True"
| "is_delivery e = False"

definition deliveries :: "event list \<Rightarrow> event list" where
  "deliveries evs = filter is_delivery evs"

section \<open>Sample states\<close>

text \<open>
  A registry at address 1 with engine 100 and one session for \<open>rtsp://a\<close>, whose
  context lives at address 2; a second registry state with two sessions; answers of the
  engine for a start that succeeds, one where no media is created and one where playback
  does not begin; a host runtime whose delivering thread is detached.
\<close>

definition demo_ctx :: PlayerContext where
  "demo_ctx = \<lparr>frameHub = Some 50, onFrameMethod = Some 9, mp = Some 30, buffer = [1, 2],
               actualWidth = 640, actualHeight = 480\<rparr>"

definition demo_registry :: GlobalContext where
  "demo_registry = \<lparr>vlc = Some 100, players = [(''rtsp://a'', 2)]\<rparr>"

definition demo_world :: world where
  "demo_world = \<lparr>globals = [1 \<mapsto> demo_registry], contexts = [2 \<mapsto> demo_ctx], trace = []\<rparr>"

definition demo_ctx2 :: PlayerContext where
  "demo_ctx2 = \<lparr>frameHub = Some 52, onFrameMethod = Some 9, mp = Some 32, buffer = [],
                actualWidth = 0, actualHeight = 0\<rparr>"

definition demo_registry2 :: GlobalContext where
  "demo_registry2 = \<lparr>vlc = Some 100, players = [(''rtsp://a'', 2), (''rtsp://b'', 4)]\<rparr>"

definition demo_world2 :: world where
  "demo_world2 = \<lparr>globals = [1 \<mapsto> demo_registry2],
                  contexts = [2 \<mapsto> demo_ctx, 4 \<mapsto> demo_ctx2], trace = []\<rparr>"

definition demo_env :: start_env where
  "demo_env = \<lparr>new_ctx = 3, global_ref = Some 51, method_id = Some 9, media = Some 20,
               player = Some 31, play_status = 0\<rparr>"

definition demo_env_no_media :: start_env where
  "demo_env_no_media = \<lparr>new_ctx = 3, global_ref = Some 51, method_id = Some 9, media = None,
                        player = None, play_status = 0\<rparr>"

definition demo_env_no_play :: start_env where
  "demo_env_no_play = \<lparr>new_ctx = 3, global_ref = Some 51, method_id = Some 9, media = Some 20,
                       player = Some 31, play_status = - 1\<rparr>"

definition demo_vm :: jvm where
  "demo_vm = \<lparr>get_env_status = - 2, attach_status = 0, env_ptr = 77, buffer_ok = True,
              sink_throws = True\<rparr>"

section \<open>Properties of format negotiation\<close>

lemma length_vector_resize:
  "vector_resize can_alloc v n = Some b \<Longrightarrow> length b = n"
  by (auto simp: vector_resize_def split: if_splits)

lemma unat_size_no_wrap:
  fixes w h :: "32 word"
  assumes "unat w * unat h * 2 < 2 ^ 32"
  shows "unat (w * 2 * h) = unat w * unat h * 2"
proof -
  have "unat (w * 2 * h) = (unat w * 2 mod 2 ^ 32 * unat h) mod 2 ^ 32"
    by (simp add: unat_word_ariths)
  also have "\<dots> = (unat w * 2 * unat h) mod 2 ^ 32"
    by (simp add: mod_mult_left_eq)
  also have "\<dots> = unat w * unat h * 2"
    using assms by (simp add: mult.commute mult.left_commute)
  finally show ?thesis .
qed

text \<open>
  What negotiation does with the dimensions: a session whose width and height are both
  positive keeps them and hands them back, whatever the engine proposes; otherwise the
  proposal is stored and handed back. On success the buffer has the size the wrapped
  product gives, which is at least width * height * 2 when that number fits 32 bits.
\<close>

lemma format_setup_cb_policy:
  assumes "format_setup_cb can_alloc ctx width height = (r, ctx', out)"
  shows "(if 0 < sint (actualWidth ctx) \<and> 0 < sint (actualHeight ctx)
          then out_width out = actualWidth ctx \<and> out_height out = actualHeight ctx
          else out_width out = width \<and> out_height out = height)
         \<and> actualWidth ctx' = out_width out \<and> actualHeight ctx' = out_height out
         \<and> (r = 1 \<or> r = 0)
         \<and> (r = 1 \<longrightarrow> length (buffer ctx') = unat (out_width out * 2 * out_height out))
         \<and> (r = 1 \<longrightarrow> unat (out_width out) * unat (out_height out) * 2 < 2 ^ 32 \<longrightarrow>
              unat (out_width out) * unat (out_height out) * 2 \<le> length (buffer ctx'))"
  using assms
  by (auto simp: format_setup_cb_def Let_def length_vector_resize unat_size_no_wrap
      split: if_splits option.splits)

text \<open>
  C1. The claim: negotiation returns the caller's dimensions when both are positive and
  the engine's otherwise, and on success the buffer holds at least width * height * 2
  bytes. The last part fails where the 32-bit product wraps: for a session started with
  65536 x 32768 the callback reports success, hands back 65536 x 32768 and leaves a buffer
  of 0 bytes.
\<close>

theorem format_setup_cb_size_wraps:
  "format_setup_cb (\<lambda>n. True)
     \<lparr>frameHub = Some 50, onFrameMethod = Some 9, mp = Some 30, buffer = [],
      actualWidth = 65536, actualHeight = 32768\<rparr> 1920 1080
   = (1, \<lparr>frameHub = Some 50, onFrameMethod = Some 9, mp = Some 30, buffer = [],
          actualWidth = 65536, actualHeight = 32768\<rparr>,
      \<lparr>chroma = ''RV16'', out_width = 65536, out_height = 32768, pitches = 131072,
       lines = 32768\<rparr>)
   \<and> \<not> (unat (65536 :: unsigned) * unat (32768 :: unsigned) * 2 \<le> length ([] :: 8 word list))"
  by (simp add: format_setup_cb_def vector_resize_def Let_def)

text \<open>
  C7. When resizing the frame buffer to the negotiated size (the stride times the number
  of lines, as handed back to the engine) fails, negotiation returns the failure code 0.
\<close>

theorem format_setup_cb_alloc_failure:
  assumes "format_setup_cb can_alloc ctx width height = (r, ctx', out)"
    and "vector_resize can_alloc (buffer ctx) (unat (pitches out * lines out)) = None"
  shows "r = 0"
  using assms
  by (auto simp: format_setup_cb_def Let_def split: if_splits option.splits)

theorem format_setup_cb_alloc_failure_witness:
  "vector_resize (\<lambda>n. False) [] (unat ((640 :: unsigned) * 240)) = None
   \<and> fst (format_setup_cb (\<lambda>n. False)
       \<lparr>frameHub = None, onFrameMethod = None, mp = None, buffer = [],
        actualWidth = 0, actualHeight = 0\<rparr> 320 240) = 0"
proof -
  let ?ctx = "\<lparr>frameHub = None, onFrameMethod = None, mp = None, buffer = [],
               actualWidth = 0, actualHeight = 0\<rparr>"
  let ?res = "format_setup_cb (\<lambda>n. False) ?ctx 320 240"
  have run: "?res = (fst ?res, fst (snd ?res), snd (snd ?res))"
    by simp
  have out: "pitches (snd (snd ?res)) = 640 \<and> lines (snd (snd ?res)) = 240"
    by (simp add: format_setup_cb_def vector_resize_def Let_def)
  have fails: "vector_resize (\<lambda>n. False) [] (unat ((640 :: unsigned) * 240)) = None"
    by (simp add: vector_resize_def)
  have "fst ?res = 0"
    by (rule format_setup_cb_alloc_failure [OF run]) (simp add: out vector_resize_def)
  with fails show ?thesis by blast
qed

section \<open>Properties of the registry\<close>

lemma mutex_lock_live: "globals w handle \<noteq> None \<Longrightarrow> mutex_lock handle w = Inr w"
  by (auto simp: mutex_lock_def)

lemma unlock_return_live:
  "globals w handle \<noteq> None \<Longrightarrow> unlock_return handle r w = Inr (r, w)"
  by (auto simp: unlock_return_def mutex_unlock_def)

lemma mutex_unlock_deleted:
  "globals w handle = None \<Longrightarrow> mutex_unlock handle w = Inl (DanglingHandle handle, w)"
  by (simp add: mutex_unlock_def)

lemma destroyPlayerContext_live:
  assumes "p \<noteq> 0" and "contexts w p = Some c"
  shows "destroyPlayerContext p w =
           Inr (w\<lparr>contexts := (contexts w)(p := None), trace := trace w @ destroy_events p c\<rparr>)"
  using assms
  by (simp add: destroyPlayerContext_def destroy_events_def emit_def Let_def split: option.splits)

lemma map_find_erase: "map_find k (map_erase k ps) = None"
  by (induction ps) (auto simp: map_find_def map_erase_def)

lemma map_find_erase_other: "k' \<noteq> k \<Longrightarrow> map_find k' (map_erase k ps) = map_find k' ps"
  by (induction ps) (auto simp: map_find_def map_erase_def)

lemma map_count_erase: "map_count k (map_erase k ps) = 0"
  by (induction ps) (auto simp: map_count_def map_erase_def)

lemma map_find_insert: "map_find k (map_insert k v ps) = Some v"
  by (induction ps) (auto simp: map_find_def)

lemma map_count_insert:
  "map_count k ps = 0 \<Longrightarrow> map_count k (map_insert k v ps) = 1"
  by (induction ps) (auto simp: map_count_def split: if_splits)

text \<open>
  C5. On a valid handle, releasing a stream that has no session returns false and leaves
  the whole state, the map included, as it was. Releasing a stream whose session is live
  makes exactly the calls of its destruction (stop and release of the player, release of
  the sink reference, deletion of the context), removes the entry and returns true; a
  second release of the same stream then returns false and changes nothing.
\<close>

theorem nativeReleaseMedia_present_absent:
  assumes "handle \<noteq> 0" and "globals w handle = Some g" and "vlc g = Some v"
  shows "(map_find url (players g) = None \<longrightarrow>
            nativeReleaseMedia handle url w = Inr (False, w))
       \<and> (\<forall>p c. map_find url (players g) = Some p \<and> p \<noteq> 0 \<and> contexts w p = Some c \<longrightarrow>
            (\<exists>w' g'. nativeReleaseMedia handle url w = Inr (True, w')
               \<and> emitted w w' = destroy_events p c
               \<and> contexts w' p = None
               \<and> globals w' handle = Some g'
               \<and> map_find url (players g') = None
               \<and> nativeReleaseMedia handle url w' = Inr (False, w')))"
  using assms
  by (auto simp: nativeReleaseMedia_def destroyPlayerContext_live emitted_def map_find_erase
      mutex_lock_live unlock_return_live split: option.splits)

theorem nativeReleaseMedia_present_absent_witness:
  "(\<exists>w' g'. nativeReleaseMedia 1 ''rtsp://a'' demo_world = Inr (True, w')
      \<and> emitted demo_world w' = destroy_events 2 demo_ctx
      \<and> contexts w' 2 = None
      \<and> globals w' 1 = Some g'
      \<and> map_find ''rtsp://a'' (players g') = None
      \<and> nativeReleaseMedia 1 ''rtsp://a'' w' = Inr (False, w'))
   \<and> nativeReleaseMedia 1 ''rtsp://b'' demo_world = Inr (False, demo_world)"
proof -
  have valid: "(1 :: addr) \<noteq> 0" "globals demo_world 1 = Some demo_registry"
    "vlc demo_registry = Some 100"
    by (simp_all add: demo_world_def demo_registry_def)
  have present: "map_find ''rtsp://a'' (players demo_registry) = Some 2 \<and> (2 :: addr) \<noteq> 0
      \<and> contexts demo_world 2 = Some demo_ctx"
    by (simp add: demo_world_def demo_registry_def map_find_def)
  have absent: "map_find ''rtsp://b'' (players demo_registry) = None"
    by (simp add: demo_registry_def map_find_def)
  from nativeReleaseMedia_present_absent [OF valid, of "''rtsp://a''"] present
    nativeReleaseMedia_present_absent [OF valid, of "''rtsp://b''"] absent
  show ?thesis by blast
qed

lemma start_new_media_failure:
  assumes "media env = None" and "globals w handle \<noteq> None"
  shows "start_new env handle g v url hub width height args w =
           Inr (False, w\<lparr>contexts := (contexts w)(new_ctx env := None),
                          trace := trace w @ [ENewCtx (new_ctx env), ENewGlobalRef hub (global_ref env),
                                    EGetMethodID hub (method_id env), EMediaNewLocation v url None,
                                    EDeleteCtx (new_ctx env)]\<rparr>)"
  using assms by (simp add: start_new_def emit_def Let_def unlock_return_live)

lemma start_new_play_failure:
  assumes "media env = Some m" and "play_status env \<noteq> 0" and "new_ctx env \<noteq> 0"
    and "globals w handle \<noteq> None"
  shows "start_new env handle g v url hub width height args w =
           Inr (False, w\<lparr>contexts := (contexts w)(new_ctx env := None),
                          trace := trace w @ setup_events env v url hub args m
                            @ destroy_events (new_ctx env)
                                \<lparr>frameHub = global_ref env, onFrameMethod = method_id env,
                                 mp = player env, buffer = [], actualWidth = width,
                                 actualHeight = height\<rparr>\<rparr>)"
  using assms
  by (simp add: start_new_def emit_def Let_def destroyPlayerContext_live setup_events_def
      unlock_return_live)

lemma start_new_success:
  assumes "media env = Some m" and "play_status env = 0"
  shows "start_new env handle g v url hub width height args w =
           Inr (True, w\<lparr>contexts := (contexts w)(new_ctx env \<mapsto>
                                \<lparr>frameHub = global_ref env, onFrameMethod = method_id env,
                                 mp = player env, buffer = [], actualWidth = width,
                                 actualHeight = height\<rparr>),
                         trace := trace w @ setup_events env v url hub args m,
                         globals := (globals w)(handle \<mapsto>
                                      g\<lparr>players := map_insert url (new_ctx env) (players g)\<rparr>)\<rparr>)"
  using assms
  by (simp add: start_new_def emit_def Let_def setup_events_def unlock_return_live)

lemma destroy_existing_found:
  assumes "map_find url (players g) = Some old" and "old \<noteq> 0" and "contexts w old = Some c"
  shows "destroy_existing handle g url w =
           Inr (g\<lparr>players := map_erase url (players g)\<rparr>,
                w\<lparr>contexts := (contexts w)(old := None),
                  trace := trace w @ destroy_events old c,
                  globals := (globals w)(handle \<mapsto> g\<lparr>players := map_erase url (players g)\<rparr>)\<rparr>)"
  using assms by (simp add: destroy_existing_def destroyPlayerContext_live Let_def)

lemma nativeStart_existing:
  assumes "handle \<noteq> 0" and "globals w handle = Some g" and "vlc g = Some v"
    and "map_find url (players g) = Some old" and "old \<noteq> 0" and "contexts w old = Some c"
  shows "nativeStart env handle url hub width height args w =
      start_new env handle (g\<lparr>players := map_erase url (players g)\<rparr>) v url hub width height args
        (w\<lparr>contexts := (contexts w)(old := None),
           trace := trace w @ destroy_events old c,
           globals := (globals w)(handle \<mapsto> g\<lparr>players := map_erase url (players g)\<rparr>)\<rparr>)"
  using assms by (simp add: nativeStart_def destroy_existing_found mutex_lock_live)

text \<open>
  C2. A start for a stream that already has a session first stops and releases the old
  player, releases the old sink reference and deletes the old context; only then is the
  new context allocated, and everything else the call does comes after that. The call
  succeeds exactly when media was created and playback began; then the remaining calls
  are the set-up of the new session up to \<^verbatim>\<open>libvlc_media_player_play\<close>, and the map
  holds exactly one entry for the stream, the new context.
\<close>

theorem nativeStart_replaces_existing:
  assumes "handle \<noteq> 0" and "globals w handle = Some g" and "vlc g = Some v"
    and "map_find url (players g) = Some old" and "old \<noteq> 0" and "contexts w old = Some c"
    and "mp c = Some p" and "frameHub c = Some r" and "new_ctx env \<noteq> 0"
  shows "\<exists>ok w' rest.
           nativeStart env handle url hub width height args w = Inr (ok, w')
         \<and> emitted w w' = [EPlayerStop p, EPlayerRelease p, EDeleteGlobalRef r, EDeleteCtx old]
                            @ ENewCtx (new_ctx env) # rest
         \<and> (ok \<longleftrightarrow> media env \<noteq> None \<and> play_status env = 0)
         \<and> (ok \<longrightarrow>
              (\<exists>m. media env = Some m
                 \<and> rest = [ENewGlobalRef hub (global_ref env), EGetMethodID hub (method_id env),
                           EMediaNewLocation v url (Some m)]
                          @ map (EMediaAddOption m) (case args of None \<Rightarrow> [] | Some opts \<Rightarrow> opts)
                          @ [EPlayerNewFromMedia m (player env), EMediaRelease m,
                             ESetCallbacks (player env) (new_ctx env),
                             ESetFormatCallbacks (player env), EPlayerPlay (player env) 0])
              \<and> (\<exists>g'. globals w' handle = Some g' \<and> map_count url (players g') = 1
                       \<and> map_find url (players g') = Some (new_ctx env))
              \<and> contexts w' (new_ctx env) =
                   Some \<lparr>frameHub = global_ref env, onFrameMethod = method_id env,
                         mp = player env, buffer = [], actualWidth = width,
                         actualHeight = height\<rparr>)"
proof -
  have de: "destroy_events old c = [EPlayerStop p, EPlayerRelease p, EDeleteGlobalRef r, EDeleteCtx old]"
    using assms(7,8) by (simp add: destroy_events_def)
  note start = nativeStart_existing [OF assms(1-6), of env hub width height args]
  show ?thesis
  proof (cases "media env")
    case None
    then show ?thesis
      unfolding start by (auto simp: start_new_media_failure emitted_def de)
  next
    case (Some m)
    show ?thesis
    proof (cases "play_status env = 0")
      case True
      with Some show ?thesis
        unfolding start
        by (auto simp: start_new_success emitted_def de setup_events_def
            map_find_insert map_count_insert map_count_erase)
    next
      case False
      with Some assms(9) show ?thesis
        unfolding start
        by (auto simp: start_new_play_failure emitted_def de setup_events_def)
    qed
  qed
qed

theorem nativeStart_replaces_existing_witness:
  "\<exists>w'. nativeStart demo_env 1 ''rtsp://a'' 7 200 200 (Some ['':network-caching=150''])
           demo_world = Inr (True, w')
      \<and> emitted demo_world w' =
           [EPlayerStop 30, EPlayerRelease 30, EDeleteGlobalRef 50, EDeleteCtx 2,
            ENewCtx 3, ENewGlobalRef 7 (Some 51), EGetMethodID 7 (Some 9),
            EMediaNewLocation 100 ''rtsp://a'' (Some 20),
            EMediaAddOption 20 '':network-caching=150'',
            EPlayerNewFromMedia 20 (Some 31), EMediaRelease 20, ESetCallbacks (Some 31) 3,
            ESetFormatCallbacks (Some 31), EPlayerPlay (Some 31) 0]
      \<and> (\<exists>g'. globals w' 1 = Some g' \<and> map_count ''rtsp://a'' (players g') = 1
             \<and> map_find ''rtsp://a'' (players g') = Some 3)"
proof -
  have hyps: "(1 :: addr) \<noteq> 0" "globals demo_world 1 = Some demo_registry"
    "vlc demo_registry = Some 100" "map_find ''rtsp://a'' (players demo_registry) = Some 2"
    "(2 :: addr) \<noteq> 0" "contexts demo_world 2 = Some demo_ctx" "mp demo_ctx = Some 30"
    "frameHub demo_ctx = Some 50" "new_ctx demo_env \<noteq> 0"
    by (simp_all add: demo_world_def demo_registry_def demo_ctx_def demo_env_def map_find_def)
  have env: "media demo_env = Some 20" "play_status demo_env = 0" "new_ctx demo_env = 3"
    "global_ref demo_env = Some 51" "method_id demo_env = Some 9" "player demo_env = Some 31"
    by (simp_all add: demo_env_def)
  from nativeStart_replaces_existing [OF hyps, of 7 200 200 "Some ['':network-caching=150'']"]
  show ?thesis
    by (auto simp: env)
qed

text \<open>
  C4. When a start for a stream that already has a session fails, because no media was
  created or playback did not begin, it returns false after the old session has been
  destroyed and its entry erased: the old context is gone and the map has no entry for
  the stream.
\<close>

theorem nativeStart_failure_drops_existing:
  assumes "handle \<noteq> 0" and "globals w handle = Some g" and "vlc g = Some v"
    and "map_find url (players g) = Some old" and "old \<noteq> 0" and "contexts w old = Some c"
    and "new_ctx env \<noteq> 0"
    and "media env = None \<or> play_status env \<noteq> 0"
  shows "\<exists>w' g' rest.
           nativeStart env handle url hub width height args w = Inr (False, w')
         \<and> emitted w w' = destroy_events old c @ rest
         \<and> contexts w' old = None
         \<and> globals w' handle = Some g'
         \<and> map_find url (players g') = None
         \<and> map_count url (players g') = 0"
proof -
  note start = nativeStart_existing [OF assms(1-6), of env hub width height args]
  show ?thesis
  proof (cases "media env")
    case None
    then show ?thesis
      unfolding start
      by (simp add: start_new_media_failure emitted_def map_find_erase map_count_erase)
  next
    case (Some m)
    with assms(8) have "play_status env \<noteq> 0" by simp
    with Some assms(7) show ?thesis
      unfolding start
      by (simp add: start_new_play_failure emitted_def map_find_erase map_count_erase)
  qed
qed

theorem nativeStart_failure_drops_existing_witness:
  "(\<exists>w' g' rest.
       nativeStart demo_env_no_media 1 ''rtsp://a'' 7 200 200 None demo_world = Inr (False, w')
     \<and> emitted demo_world w' = destroy_events 2 demo_ctx @ rest
     \<and> contexts w' 2 = None \<and> globals w' 1 = Some g'
     \<and> map_find ''rtsp://a'' (players g') = None \<and> map_count ''rtsp://a'' (players g') = 0)
   \<and> (\<exists>w' g' rest.
       nativeStart demo_env_no_play 1 ''rtsp://a'' 7 200 200 None demo_world = Inr (False, w')
     \<and> emitted demo_world w' = destroy_events 2 demo_ctx @ rest
     \<and> contexts w' 2 = None \<and> globals w' 1 = Some g'
     \<and> map_find ''rtsp://a'' (players g') = None \<and> map_count ''rtsp://a'' (players g') = 0)"
proof -
  have hyps: "(1 :: addr) \<noteq> 0" "globals demo_world 1 = Some demo_registry"
    "vlc demo_registry = Some 100" "map_find ''rtsp://a'' (players demo_registry) = Some 2"
    "(2 :: addr) \<noteq> 0" "contexts demo_world 2 = Some demo_ctx"
    by (simp_all add: demo_world_def demo_registry_def map_find_def)
  have no_media: "new_ctx demo_env_no_media \<noteq> 0"
    "media demo_env_no_media = None \<or> play_status demo_env_no_media \<noteq> 0"
    by (simp_all add: demo_env_no_media_def)
  have no_play: "new_ctx demo_env_no_play \<noteq> 0"
    "media demo_env_no_play = None \<or> play_status demo_env_no_play \<noteq> 0"
    by (simp_all add: demo_env_no_play_def)
  from nativeStart_failure_drops_existing [OF hyps no_media, of 7 200 200 None]
    nativeStart_failure_drops_existing [OF hyps no_play, of 7 200 200 None]
  show ?thesis by blast
qed

text \<open>
  C3. The claim: a start that fails returns false, registers nothing and releases every
  resource it has built, the sink reference included. When no media is created the code
  only deletes the context: the global reference obtained by \<^verbatim>\<open>NewGlobalRef\<close> (51
  below) is never handed to \<^verbatim>\<open>DeleteGlobalRef\<close>. The path for a playback that does
  not begin goes through \<^verbatim>\<open>destroyPlayerContext\<close> and does release it
  (lemma \<open>start_new_play_failure\<close>).
\<close>

theorem nativeStart_media_failure_leaks_sink_ref:
  "nativeStart demo_env_no_media 1 ''rtsp://c'' 7 640 480 None demo_world =
     Inr (False, demo_world\<lparr>trace :=
            [ENewCtx 3, ENewGlobalRef 7 (Some 51), EGetMethodID 7 (Some 9),
             EMediaNewLocation 100 ''rtsp://c'' None, EDeleteCtx 3]\<rparr>)
   \<and> EDeleteGlobalRef 51 \<notin> set [ENewCtx 3, ENewGlobalRef 7 (Some 51), EGetMethodID 7 (Some 9),
             EMediaNewLocation 100 ''rtsp://c'' None, EDeleteCtx 3]"
  by (simp add: nativeStart_def destroy_existing_def start_new_def emit_def Let_def map_find_def
      mutex_lock_def mutex_unlock_def unlock_return_def
      demo_world_def demo_registry_def demo_env_no_media_def)


lemma destroy_all_events_cong:
  assumes "\<forall>(k, a) \<in> set ps. cs a = cs' a"
  shows "destroy_all_events cs ps = destroy_all_events cs' ps"
  using assms by (induction ps) (auto simp: destroy_all_events_def)

lemma destroy_all_live:
  assumes "sessions_live ps w"
  shows "destroy_all ps w =
           Inr (w\<lparr>contexts := (\<lambda>x. if x \<in> snd ` set ps then None else contexts w x),
                  trace := trace w @ destroy_all_events (contexts w) ps\<rparr>)"
  using assms
proof (induction ps arbitrary: w)
  case Nil
  then show ?case by (simp add: destroy_all_events_def)
next
  case (Cons ka ps)
  obtain k a where ka: "ka = (k, a)" by (cases ka)
  from Cons.prems ka obtain c where a: "a \<noteq> 0" "contexts w a = Some c"
    and fresh: "a \<notin> snd ` set ps" and rest: "sessions_live ps w"
    by (auto simp: sessions_live_def)
  let ?w1 = "w\<lparr>contexts := (contexts w)(a := None), trace := trace w @ destroy_events a c\<rparr>"
  have live1: "sessions_live ps ?w1"
    using rest fresh by (force simp: sessions_live_def list_all_iff)
  have same: "destroy_all_events (contexts ?w1) ps = destroy_all_events (contexts w) ps"
    using fresh by (intro destroy_all_events_cong) force
  have "destroy_all (ka # ps) w = destroy_all ps ?w1"
    using a by (simp add: ka destroyPlayerContext_live)
  also have "\<dots> = Inr (?w1\<lparr>contexts := (\<lambda>x. if x \<in> snd ` set ps then None else contexts ?w1 x),
                            trace := trace ?w1 @ destroy_all_events (contexts ?w1) ps\<rparr>)"
    by (rule Cons.IH [OF live1])
  also have "\<dots> = Inr (w\<lparr>contexts := (\<lambda>x. if x \<in> snd ` set (ka # ps) then None else contexts w x),
                           trace := trace w @ destroy_all_events (contexts w) (ka # ps)\<rparr>)"
    unfolding same using a by (auto simp: ka destroy_all_events_def fun_eq_iff)
  finally show ?case .
qed

lemma nativeReleaseVLC_faults:
  assumes "handle \<noteq> 0" and "globals w handle = Some g" and "vlc g = Some v"
    and "sessions_live (players g) w"
  shows "nativeReleaseVLC handle w =
           Inl (DanglingHandle handle,
                w\<lparr>contexts := (\<lambda>x. if x \<in> snd ` set (players g) then None else contexts w x),
                  trace := trace w @ destroy_all_events (contexts w) (players g)
                             @ [EVlcRelease v, EDeleteGlobalCtx handle \<lparr>vlc = None, players = []\<rparr>],
                  globals := (globals w)(handle := None)\<rparr>)"
  using assms
  by (simp add: nativeReleaseVLC_def destroy_all_live emit_def Let_def mutex_lock_live
      mutex_unlock_deleted)

text \<open>
  C6. The claim: on a valid handle, releasing everything destroys every session, clears
  the map, then releases the engine, in that order, and leaves the handle invalid. The
  code makes these steps in this order, but it deletes the registry object while the
  guard taken at line 161 still holds the mutex inside it; leaving the function, the
  guard unlocks that mutex. Every call on a valid handle whose sessions are live therefore
  ends in a use of the deleted registry, in the state the claim describes.
\<close>

theorem nativeReleaseVLC_unlocks_deleted_registry:
  assumes "handle \<noteq> 0" and "globals w handle = Some g" and "vlc g = Some v"
    and "sessions_live (players g) w"
  shows "\<exists>w'. nativeReleaseVLC handle w = Inl (DanglingHandle handle, w')
           \<and> (\<forall>(k, a) \<in> set (players g). contexts w' a = None)
           \<and> globals w' handle = None
           \<and> emitted w w' = destroy_all_events (contexts w) (players g)
                @ [EVlcRelease v, EDeleteGlobalCtx handle \<lparr>vlc = None, players = []\<rparr>]"
proof -
  let ?w' = "w\<lparr>contexts := (\<lambda>x. if x \<in> snd ` set (players g) then None else contexts w x),
              trace := trace w @ destroy_all_events (contexts w) (players g)
                         @ [EVlcRelease v, EDeleteGlobalCtx handle \<lparr>vlc = None, players = []\<rparr>],
              globals := (globals w)(handle := None)\<rparr>"
  have run: "nativeReleaseVLC handle w = Inl (DanglingHandle handle, ?w')"
    using assms by (rule nativeReleaseVLC_faults)
  have gone: "\<forall>(k, a) \<in> set (players g). contexts ?w' a = None"
    by force
  have invalid: "globals ?w' handle = None"
    by simp
  have evs: "emitted w ?w' = destroy_all_events (contexts w) (players g)
      @ [EVlcRelease v, EDeleteGlobalCtx handle \<lparr>vlc = None, players = []\<rparr>]"
    by (simp add: emitted_def)
  from run gone invalid evs show ?thesis
    by blast
qed

theorem nativeReleaseVLC_unlocks_deleted_registry_witness:
  "\<exists>w'. nativeReleaseVLC 1 demo_world2 = Inl (DanglingHandle 1, w')
      \<and> contexts w' 2 = None \<and> contexts w' 4 = None
      \<and> globals w' 1 = None
      \<and> emitted demo_world2 w' =
          [EPlayerStop 30, EPlayerRelease 30, EDeleteGlobalRef 50, EDeleteCtx 2,
           EPlayerStop 32, EPlayerRelease 32, EDeleteGlobalRef 52, EDeleteCtx 4,
           EVlcRelease 100, EDeleteGlobalCtx 1 \<lparr>vlc = None, players = []\<rparr>]"
proof -
  have hyps: "(1 :: addr) \<noteq> 0" "globals demo_world2 1 = Some demo_registry2"
    "vlc demo_registry2 = Some 100" "sessions_live (players demo_registry2) demo_world2"
    by (simp_all add: demo_world2_def demo_registry2_def sessions_live_def)
  have evs: "destroy_all_events (contexts demo_world2) [(''rtsp://a'', 2), (''rtsp://b'', 4)] =
      [EPlayerStop 30, EPlayerRelease 30, EDeleteGlobalRef 50, EDeleteCtx 2,
       EPlayerStop 32, EPlayerRelease 32, EDeleteGlobalRef 52, EDeleteCtx 4]"
    by (simp add: destroy_all_events_def destroy_events_def demo_world2_def demo_registry2_def
        demo_ctx_def demo_ctx2_def)
  have ps: "players demo_registry2 = [(''rtsp://a'', 2), (''rtsp://b'', 4)]"
    by (simp add: demo_registry2_def)
  from nativeReleaseVLC_unlocks_deleted_registry [OF hyps]
  show ?thesis
    by (auto simp: evs ps)
qed

lemma precedes_append:
  "y \<notin> set xs \<Longrightarrow>
     precedes x y (xs @ ys) = (if x \<in> set xs then y \<in> set ys else precedes x y ys)"
  by (induction xs) auto

lemma destroy_events_order:
  "mp c = Some p \<Longrightarrow>
     destroy_events a c =
       [EPlayerStop p, EPlayerRelease p]
       @ (case frameHub c of Some r \<Rightarrow> [EDeleteGlobalRef r] | None \<Rightarrow> [])
       @ [EDeleteCtx a]"
  by (simp add: destroy_events_def)

lemma precedes_destroy_events:
  "mp c = Some p \<Longrightarrow> precedes (EPlayerStop p) (EDeleteCtx a) (destroy_events a c @ rest)"
  by (simp add: destroy_events_def)

lemma delete_in_destroy_all_events:
  "EDeleteCtx a \<in> set (destroy_all_events cs ps) \<Longrightarrow> a \<in> snd ` set ps"
  by (induction ps) (auto simp: destroy_all_events_def destroy_events_def split: option.splits)

text \<open>
  In the destruction of all sessions, the calls for one session stand together, and its
  context is deleted nowhere else.
\<close>

lemma destroy_all_events_block:
  assumes "(k, a) \<in> set ps" and "distinct (map snd ps)" and "cs a = Some c"
  shows "\<exists>pre post. destroy_all_events cs ps = pre @ destroy_events a c @ post
           \<and> EDeleteCtx a \<notin> set pre \<and> EDeleteCtx a \<notin> set post"
proof -
  from assms(1) obtain xs ys where ps: "ps = xs @ (k, a) # ys"
    by (auto dest: split_list)
  with assms(2) have fresh: "a \<notin> snd ` set xs" "a \<notin> snd ` set ys"
    by auto
  have "destroy_all_events cs ps =
      destroy_all_events cs xs @ destroy_events a c @ destroy_all_events cs ys"
    using assms(3) by (simp add: ps destroy_all_events_def)
  moreover have "EDeleteCtx a \<notin> set (destroy_all_events cs xs)"
    "EDeleteCtx a \<notin> set (destroy_all_events cs ys)"
    using fresh by (auto dest: delete_in_destroy_all_events)
  ultimately show ?thesis
    by blast
qed

lemma map_find_mem: "map_find k ps = Some a \<Longrightarrow> (k, a) \<in> set ps"
  by (simp add: map_find_def map_of_SomeD)

lemma sessions_live_mem:
  "sessions_live ps w \<Longrightarrow> (k, a) \<in> set ps \<Longrightarrow> a \<noteq> 0 \<and> contexts w a \<noteq> None"
  by (auto simp: sessions_live_def list_all_iff)

lemma nativeStart_existing_prefix:
  assumes "handle \<noteq> 0" and "globals w handle = Some g" and "vlc g = Some v"
    and "map_find url (players g) = Some old" and "old \<noteq> 0" and "contexts w old = Some c"
    and "new_ctx env \<noteq> 0"
  shows "\<exists>ok w' rest. nativeStart env handle url hub width height args w = Inr (ok, w')
           \<and> emitted w w' = destroy_events old c @ rest"
proof -
  note start = nativeStart_existing [OF assms(1-6), of env hub width height args]
  show ?thesis
  proof (cases "media env")
    case None
    then show ?thesis
      unfolding start by (auto simp: start_new_media_failure emitted_def)
  next
    case (Some m)
    with assms(7) show ?thesis
      unfolding start
      by (cases "play_status env = 0")
        (auto simp: start_new_success start_new_play_failure emitted_def)
  qed
qed

text \<open>
  C9. For a registered session with a player, \<^verbatim>\<open>destroyPlayerContext\<close> and each of
  the three paths that destroy a session through it (the release of one stream, the
  replacement in a start, the release of everything) make the calls of its destruction in
  one order: the player is stopped and released, then the sink reference is released,
  then the context, and with it the buffer, is deleted. In the release of one stream
  these are all the calls, in a start they come first, and in the release of everything
  they stand together among the destructions of the other sessions, all of which come
  before that call ends in the use of the deleted registry.
\<close>

theorem stop_precedes_destroy:
  assumes "handle \<noteq> 0" and "globals w handle = Some g" and "vlc g = Some v"
    and "sessions_live (players g) w"
    and "map_find url (players g) = Some a" and "contexts w a = Some c" and "mp c = Some p"
    and "new_ctx env \<noteq> 0"
  shows "let block = [EPlayerStop p, EPlayerRelease p]
                     @ (case frameHub c of Some r \<Rightarrow> [EDeleteGlobalRef r] | None \<Rightarrow> [])
                     @ [EDeleteCtx a]
         in (\<exists>w'. destroyPlayerContext a w = Inr w'
               \<and> emitted w w' = block
               \<and> precedes (EPlayerStop p) (EDeleteCtx a) (emitted w w') \<and> contexts w' a = None)
          \<and> (\<exists>w'. nativeReleaseMedia handle url w = Inr (True, w')
               \<and> emitted w w' = block
               \<and> precedes (EPlayerStop p) (EDeleteCtx a) (emitted w w') \<and> contexts w' a = None)
          \<and> (\<exists>ok w' rest. nativeStart env handle url hub width height args w = Inr (ok, w')
               \<and> emitted w w' = block @ rest
               \<and> precedes (EPlayerStop p) (EDeleteCtx a) (emitted w w'))
          \<and> (\<exists>w' pre post. nativeReleaseVLC handle w = Inl (DanglingHandle handle, w')
               \<and> emitted w w' = pre @ block @ post
               \<and> EDeleteCtx a \<notin> set pre \<and> EDeleteCtx a \<notin> set post
               \<and> precedes (EPlayerStop p) (EDeleteCtx a) (emitted w w') \<and> contexts w' a = None)"
proof -
  let ?block = "[EPlayerStop p, EPlayerRelease p]
                @ (case frameHub c of Some r \<Rightarrow> [EDeleteGlobalRef r] | None \<Rightarrow> [])
                @ [EDeleteCtx a]"
  have block: "destroy_events a c = ?block"
    using assms(7) by (rule destroy_events_order)
  have mem: "(url, a) \<in> set (players g)"
    using assms(5) by (rule map_find_mem)
  with assms(4) have a: "a \<noteq> 0"
    by (auto dest: sessions_live_mem)
  have first: "precedes (EPlayerStop p) (EDeleteCtx a) (destroy_events a c @ rest)" for rest
    using assms(7) by (rule precedes_destroy_events)
  have one: "\<exists>w'. destroyPlayerContext a w = Inr w'
      \<and> emitted w w' = ?block
      \<and> precedes (EPlayerStop p) (EDeleteCtx a) (emitted w w') \<and> contexts w' a = None"
    using a assms(6) first [of "[]"] block
    by (simp add: destroyPlayerContext_live emitted_def)
  have two: "\<exists>w'. nativeReleaseMedia handle url w = Inr (True, w')
      \<and> emitted w w' = ?block
      \<and> precedes (EPlayerStop p) (EDeleteCtx a) (emitted w w') \<and> contexts w' a = None"
    using a assms(1-3,5,6) first [of "[]"] block
    by (simp add: nativeReleaseMedia_def destroyPlayerContext_live emitted_def
        mutex_lock_live unlock_return_live)
  from nativeStart_existing_prefix [OF assms(1-3,5) a assms(6,8), of hub width height args]
  obtain ok w' rest where start:
    "nativeStart env handle url hub width height args w = Inr (ok, w')"
    "emitted w w' = destroy_events a c @ rest"
    by blast
  have three: "\<exists>ok w' rest. nativeStart env handle url hub width height args w = Inr (ok, w')
      \<and> emitted w w' = ?block @ rest
      \<and> precedes (EPlayerStop p) (EDeleteCtx a) (emitted w w')"
    using start first [of rest] block by auto
  have "distinct (map snd (players g))"
    using assms(4) by (simp add: sessions_live_def)
  from destroy_all_events_block [of url a "players g" "contexts w" c, OF mem this assms(6)]
  obtain pre post where parts:
    "destroy_all_events (contexts w) (players g) = pre @ destroy_events a c @ post"
    "EDeleteCtx a \<notin> set pre" "EDeleteCtx a \<notin> set post"
    by blast
  let ?tail = "[EVlcRelease v, EDeleteGlobalCtx handle \<lparr>vlc = None, players = []\<rparr>]"
  let ?w' = "w\<lparr>contexts := (\<lambda>x. if x \<in> snd ` set (players g) then None else contexts w x),
              trace := trace w @ destroy_all_events (contexts w) (players g) @ ?tail,
              globals := (globals w)(handle := None)\<rparr>"
  have run: "nativeReleaseVLC handle w = Inl (DanglingHandle handle, ?w')"
    using assms(1-4) by (rule nativeReleaseVLC_faults)
  have evs: "emitted w ?w' = pre @ ?block @ (post @ ?tail)"
    by (simp add: emitted_def parts(1) block)
  have post: "EDeleteCtx a \<notin> set (post @ ?tail)"
    using parts(3) by simp
  have "precedes (EPlayerStop p) (EDeleteCtx a) (pre @ (destroy_events a c @ (post @ ?tail)))"
    using parts(2) first [of "post @ ?tail"]
    by (auto simp: precedes_append destroy_events_def)
  then have ordered: "precedes (EPlayerStop p) (EDeleteCtx a) (emitted w ?w')"
    by (simp add: evs block)
  have gone: "contexts ?w' a = None"
    using mem by force
  from run evs parts(2) post ordered gone
  have four: "\<exists>w' pre post. nativeReleaseVLC handle w = Inl (DanglingHandle handle, w')
      \<and> emitted w w' = pre @ ?block @ post
      \<and> EDeleteCtx a \<notin> set pre \<and> EDeleteCtx a \<notin> set post
      \<and> precedes (EPlayerStop p) (EDeleteCtx a) (emitted w w') \<and> contexts w' a = None"
    by blast
  from one two three four show ?thesis
    unfolding Let_def by blast
qed

theorem stop_precedes_destroy_witness:
  "(\<exists>w'. destroyPlayerContext 4 demo_world2 = Inr w'
       \<and> emitted demo_world2 w' =
           [EPlayerStop 32, EPlayerRelease 32, EDeleteGlobalRef 52, EDeleteCtx 4]
       \<and> precedes (EPlayerStop 32) (EDeleteCtx 4) (emitted demo_world2 w') \<and> contexts w' 4 = None)
   \<and> (\<exists>w'. nativeReleaseMedia 1 ''rtsp://b'' demo_world2 = Inr (True, w')
       \<and> emitted demo_world2 w' =
           [EPlayerStop 32, EPlayerRelease 32, EDeleteGlobalRef 52, EDeleteCtx 4]
       \<and> precedes (EPlayerStop 32) (EDeleteCtx 4) (emitted demo_world2 w') \<and> contexts w' 4 = None)
   \<and> (\<exists>ok w' rest. nativeStart demo_env 1 ''rtsp://b'' 7 0 0 None demo_world2 = Inr (ok, w')
       \<and> emitted demo_world2 w' =
           [EPlayerStop 32, EPlayerRelease 32, EDeleteGlobalRef 52, EDeleteCtx 4] @ rest
       \<and> precedes (EPlayerStop 32) (EDeleteCtx 4) (emitted demo_world2 w'))
   \<and> (\<exists>w' pre post. nativeReleaseVLC 1 demo_world2 = Inl (DanglingHandle 1, w')
       \<and> emitted demo_world2 w' =
           pre @ [EPlayerStop 32, EPlayerRelease 32, EDeleteGlobalRef 52, EDeleteCtx 4] @ post
       \<and> EDeleteCtx 4 \<notin> set pre \<and> EDeleteCtx 4 \<notin> set post
       \<and> precedes (EPlayerStop 32) (EDeleteCtx 4) (emitted demo_world2 w') \<and> contexts w' 4 = None)"
proof -
  have hyps: "(1 :: addr) \<noteq> 0" "globals demo_world2 1 = Some demo_registry2"
    "vlc demo_registry2 = Some 100" "sessions_live (players demo_registry2) demo_world2"
    "map_find ''rtsp://b'' (players demo_registry2) = Some 4"
    "contexts demo_world2 4 = Some demo_ctx2" "mp demo_ctx2 = Some 32" "new_ctx demo_env \<noteq> 0"
    by (simp_all add: demo_world2_def demo_registry2_def sessions_live_def map_find_def
        demo_ctx2_def demo_env_def)
  have sink: "frameHub demo_ctx2 = Some 52"
    by (simp add: demo_ctx2_def)
  from stop_precedes_destroy [OF hyps, of 7 0 0 None]
  show ?thesis
    unfolding Let_def sink by simp
qed

section \<open>Properties of frame delivery\<close>

lemma getJNIEnv_reachable:
  "fst (getJNIEnv vm nd) \<noteq> None \<longleftrightarrow>
     get_env_status vm = JNI_OK \<or> (get_env_status vm = JNI_EDETACHED \<and> attach_status vm = JNI_OK)"
  by (simp add: getJNIEnv_def)

text \<open>
  C8, as amended. With a sink installed, its handler resolved, the host environment
  reachable and the byte buffer obtained, a display makes exactly one delivery, carrying
  the session's buffer, width and height. Without a sink it makes no call at all. When
  the handler is unresolved, the environment unreachable or no byte buffer obtained, it
  delivers nothing.
\<close>

theorem display_cb_delivery:
  "(\<forall>hub m. frameHub ctx = Some hub \<and> onFrameMethod ctx = Some m
        \<and> fst (getJNIEnv vm False) \<noteq> None \<and> buffer_ok vm \<longrightarrow>
      deliveries (display_cb vm (Some ctx)) =
        [ECallVoidMethod hub m (buffer ctx) (actualWidth ctx) (actualHeight ctx) (sink_throws vm)])
   \<and> (frameHub ctx = None \<longrightarrow> display_cb vm (Some ctx) = [])
   \<and> (frameHub ctx = None \<or> onFrameMethod ctx = None \<or> fst (getJNIEnv vm False) = None
        \<or> \<not> buffer_ok vm \<longrightarrow> deliveries (display_cb vm (Some ctx)) = [])"
  by (auto simp: display_cb_def getJNIEnv_def deliveries_def split: option.splits)

theorem display_cb_delivery_witness:
  "deliveries (display_cb demo_vm (Some demo_ctx)) = [ECallVoidMethod 50 9 [1, 2] 640 480 True]
   \<and> display_cb demo_vm (Some (demo_ctx\<lparr>frameHub := None\<rparr>)) = []
   \<and> deliveries (display_cb (demo_vm\<lparr>buffer_ok := False\<rparr>) (Some demo_ctx)) = []"
proof -
  have ok: "frameHub demo_ctx = Some 50 \<and> onFrameMethod demo_ctx = Some 9
      \<and> fst (getJNIEnv demo_vm False) \<noteq> None \<and> buffer_ok demo_vm"
    by (simp add: demo_ctx_def demo_vm_def getJNIEnv_def JNI_OK_def JNI_EDETACHED_def)
  have fields: "buffer demo_ctx = [1, 2]" "actualWidth demo_ctx = 640"
    "actualHeight demo_ctx = 480" "sink_throws demo_vm"
    by (simp_all add: demo_ctx_def demo_vm_def)
  have none: "frameHub (demo_ctx\<lparr>frameHub := None\<rparr>) = None"
    by simp
  have refused: "\<not> buffer_ok (demo_vm\<lparr>buffer_ok := False\<rparr>)"
    by simp
  from display_cb_delivery [of demo_ctx demo_vm] ok fields
  have one: "deliveries (display_cb demo_vm (Some demo_ctx))
      = [ECallVoidMethod 50 9 [1, 2] 640 480 True]"
    by simp
  from display_cb_delivery [of "demo_ctx\<lparr>frameHub := None\<rparr>" demo_vm] none
  have two: "display_cb demo_vm (Some (demo_ctx\<lparr>frameHub := None\<rparr>)) = []"
    by blast
  from display_cb_delivery [of demo_ctx "demo_vm\<lparr>buffer_ok := False\<rparr>"] refused
  have three: "deliveries (display_cb (demo_vm\<lparr>buffer_ok := False\<rparr>) (Some demo_ctx)) = []"
    by blast
  from one two three show ?thesis by blast
qed

text \<open>
  C8 as stated fails: with a sink installed and the environment reachable there is no
  delivery when \<^verbatim>\<open>NewDirectByteBuffer\<close> yields nothing, and none when the handler was
  not resolved.
\<close>

theorem display_cb_delivery_counterexample:
  "\<not> (frameHub demo_ctx \<noteq> None
        \<and> fst (getJNIEnv (demo_vm\<lparr>buffer_ok := False\<rparr>) False) \<noteq> None
      \<longrightarrow> length (deliveries (display_cb (demo_vm\<lparr>buffer_ok := False\<rparr>) (Some demo_ctx))) = 1)
   \<and> \<not> (frameHub (demo_ctx\<lparr>onFrameMethod := None\<rparr>) \<noteq> None
        \<and> fst (getJNIEnv demo_vm False) \<noteq> None
      \<longrightarrow> length (deliveries (display_cb demo_vm (Some (demo_ctx\<lparr>onFrameMethod := None\<rparr>)))) = 1)"
  by (simp add: display_cb_def getJNIEnv_def deliveries_def demo_ctx_def demo_vm_def
      JNI_OK_def JNI_EDETACHED_def)

text \<open>
  C10. The delivery marks itself responsible for detaching exactly when it attached the
  thread. For a session with a sink on a detached thread it calls
  \<^verbatim>\<open>AttachCurrentThread\<close> right after \<^verbatim>\<open>GetEnv\<close>. When the attach succeeded, the
  last call of the delivery is the one \<^verbatim>\<open>DetachCurrentThread\<close>, whatever happens in
  between (no byte buffer, an exception left by the sink, no handler). When it did not
  attach it never detaches. When the environment cannot be reached it makes no call
  beyond the attempt to reach it.
\<close>

theorem display_cb_attach_detach:
  "(fst (snd (getJNIEnv vm False)) \<longleftrightarrow>
      get_env_status vm = JNI_EDETACHED \<and> attach_status vm = JNI_OK)
   \<and> (frameHub ctx \<noteq> None \<and> get_env_status vm = JNI_EDETACHED \<longrightarrow>
        take 2 (display_cb vm (Some ctx)) = [EGetEnv JNI_EDETACHED, EAttachCurrentThread (attach_status vm)])
   \<and> (frameHub ctx \<noteq> None \<and> get_env_status vm = JNI_EDETACHED \<and> attach_status vm = JNI_OK \<longrightarrow>
        (\<exists>mid. display_cb vm (Some ctx) =
                  [EGetEnv JNI_EDETACHED, EAttachCurrentThread JNI_OK] @ mid @ [EDetachCurrentThread]
              \<and> EDetachCurrentThread \<notin> set mid \<and> EAttachCurrentThread JNI_OK \<notin> set mid))
   \<and> (\<not> (get_env_status vm = JNI_EDETACHED \<and> attach_status vm = JNI_OK) \<longrightarrow>
        EDetachCurrentThread \<notin> set (display_cb vm opaque)
      \<and> EAttachCurrentThread JNI_OK \<notin> set (display_cb vm opaque))
   \<and> (fst (getJNIEnv vm False) = None \<longrightarrow>
        set (display_cb vm opaque)
          \<subseteq> {EGetEnv (get_env_status vm), EAttachCurrentThread (attach_status vm)})"
  by (auto simp: display_cb_def getJNIEnv_def JNI_OK_def JNI_EDETACHED_def
      split: option.splits)


theorem display_cb_attach_detach_witness:
  "(\<exists>mid. display_cb demo_vm (Some demo_ctx) =
             [EGetEnv JNI_EDETACHED, EAttachCurrentThread JNI_OK] @ mid @ [EDetachCurrentThread]
         \<and> EDetachCurrentThread \<notin> set mid \<and> EAttachCurrentThread JNI_OK \<notin> set mid)
   \<and> take 2 (display_cb (demo_vm\<lparr>attach_status := - 1\<rparr>) (Some demo_ctx))
       = [EGetEnv JNI_EDETACHED, EAttachCurrentThread (- 1)]
   \<and> EDetachCurrentThread \<notin> set (display_cb (demo_vm\<lparr>attach_status := - 1\<rparr>) (Some demo_ctx))
   \<and> set (display_cb (demo_vm\<lparr>attach_status := - 1\<rparr>) (Some demo_ctx))
       \<subseteq> {EGetEnv (- 2), EAttachCurrentThread (- 1)}"
proof -
  let ?vm = "demo_vm\<lparr>attach_status := - 1\<rparr>"
  have attached: "frameHub demo_ctx \<noteq> None \<and> get_env_status demo_vm = JNI_EDETACHED
      \<and> attach_status demo_vm = JNI_OK"
    by (simp add: demo_ctx_def demo_vm_def JNI_OK_def JNI_EDETACHED_def)
  have refused: "frameHub demo_ctx \<noteq> None \<and> get_env_status ?vm = JNI_EDETACHED"
    "\<not> (get_env_status ?vm = JNI_EDETACHED \<and> attach_status ?vm = JNI_OK)"
    "fst (getJNIEnv ?vm False) = None"
    "get_env_status ?vm = - 2" "attach_status ?vm = - 1"
    by (simp_all add: demo_ctx_def demo_vm_def getJNIEnv_def JNI_OK_def JNI_EDETACHED_def)
  from display_cb_attach_detach [of demo_vm demo_ctx "Some demo_ctx"] attached
  have one: "\<exists>mid. display_cb demo_vm (Some demo_ctx) =
             [EGetEnv JNI_EDETACHED, EAttachCurrentThread JNI_OK] @ mid @ [EDetachCurrentThread]
         \<and> EDetachCurrentThread \<notin> set mid \<and> EAttachCurrentThread JNI_OK \<notin> set mid"
    by blast
  from display_cb_attach_detach [of ?vm demo_ctx "Some demo_ctx"] refused(1-3)
  have "take 2 (display_cb ?vm (Some demo_ctx))
          = [EGetEnv JNI_EDETACHED, EAttachCurrentThread (attach_status ?vm)]
      \<and> EDetachCurrentThread \<notin> set (display_cb ?vm (Some demo_ctx))
      \<and> set (display_cb ?vm (Some demo_ctx))
          \<subseteq> {EGetEnv (get_env_status ?vm), EAttachCurrentThread (attach_status ?vm)}"
    by blast
  then have two: "take 2 (display_cb ?vm (Some demo_ctx))
          = [EGetEnv JNI_EDETACHED, EAttachCurrentThread (- 1)]
      \<and> EDetachCurrentThread \<notin> set (display_cb ?vm (Some demo_ctx))
      \<and> set (display_cb ?vm (Some demo_ctx)) \<subseteq> {EGetEnv (- 2), EAttachCurrentThread (- 1)}"
    unfolding refused(4,5) .
  from one two show ?thesis by blast
qed


end
